theory Spec2Isabelle
  imports Main "HOL-Library.Word"
begin

section \<open>Values of the JavaScript runtime that \<open>PaymentChannel.js\<close> computes with\<close>

text \<open>
  \<open>src/PaymentChannel.js\<close> holds one class, \<open>PaymentChannel\<close>. Its objects live in
  the JavaScript heap and are shared by reference, so the model keeps an explicit store
  of objects and lets every method take the store and the address of \<open>this\<close>.
  A rejected promise and a thrown exception are the \<open>Inl\<close> branch of a sum.
\<close>

type_synonym byte = "8 word"

datatype js_error =
    RangeError
  | TypeError
  | Err string \<comment> \<open>an error value handed over by a collaborator (contract, account, service)\<close>

subsection \<open>bignumber.js values\<close>

text \<open>
  The class builds \<open>BigNumber\<close>s only with \<open>new BigNumber(0)\<close> and
  \<open>new BigNumber('0x' + hex)\<close>: the values that can arise are the integers and
  \<open>NaN\<close> (bignumber.js answers \<open>NaN\<close> for a string that is not a number, its
  \<open>DEBUG\<close> switch being off by default).
\<close>

datatype BigNumber = BN int | BN_NaN

subsection \<open>IEEE doubles (the JavaScript Number type)\<close>

text \<open>
  The operator \<open>-\<close> of line 78 is JavaScript's own: it converts both operands with
  ToNumber and subtracts doubles. All operands are integers here, so the finite doubles
  that arise are integer-valued; \<open>Finite i\<close> is the double whose value is \<open>i\<close>
  (the two zeros are not told apart).
\<close>

datatype JSNumber = Finite int | PosInfinity | NegInfinity | NaN

fun bitlen :: "nat \<Rightarrow> nat" where
  "bitlen n = (if n = 0 then 0 else Suc (bitlen (n div 2)))"

declare bitlen.simps [simp del]

text \<open>
  Rounding a natural number to 53 significant bits, to nearest, ties to the even
  significand: what ToNumber and the double subtraction do to an exact integer result.
\<close>

definition round53 :: "nat \<Rightarrow> nat" where
  "round53 n =
     (let k = bitlen n - 53 in
      if k = 0 then n
      else
        let q = n div 2 ^ k; r = n mod 2 ^ k; half = 2 ^ (k - 1)
        in (if half < r \<or> (r = half \<and> q mod 2 = 1) then q + 1 else q) * 2 ^ k)"

text \<open>The largest finite double is \<open>(2^53 - 1) * 2^971\<close>; a result that rounds to
  \<open>2^1024\<close> or more is an infinity.\<close>

definition Number_of_int :: "int \<Rightarrow> JSNumber" where
  "Number_of_int i =
     (let m = round53 (nat \<bar>i\<bar>) in
      if 2 ^ 1024 \<le> m then (if i < 0 then NegInfinity else PosInfinity)
      else Finite (if i < 0 then - int m else int m))"

fun js_minus :: "JSNumber \<Rightarrow> JSNumber \<Rightarrow> JSNumber" where
  "js_minus (Finite a) (Finite b) = Number_of_int (a - b)"
| "js_minus (Finite a) PosInfinity = NegInfinity"
| "js_minus (Finite a) NegInfinity = PosInfinity"
| "js_minus PosInfinity (Finite b) = PosInfinity"
| "js_minus PosInfinity NegInfinity = PosInfinity"
| "js_minus NegInfinity (Finite b) = NegInfinity"
| "js_minus NegInfinity PosInfinity = NegInfinity"
| "js_minus _ _ = NaN"

subsection \<open>Dynamically typed field values\<close>

text \<open>
  A field of the state object holds a \<open>BigNumber\<close>, a number, or an unsigned integer as
  web3 hands it back from the contract (a decimal string or a BN object: the contract
  wrapper is not part of this class, only the value matters).
\<close>

datatype js_value =
    VBigNumber BigNumber
  | VWeb3Uint nat
  | VNumber JSNumber

text \<open>ToNumber: a \<open>BigNumber\<close> and a web3 integer both convert through their decimal
  string, which is read as the nearest double.\<close>

fun ToNumber :: "js_value \<Rightarrow> JSNumber" where
  "ToNumber (VNumber x) = x"
| "ToNumber (VBigNumber (BN i)) = Number_of_int i"
| "ToNumber (VBigNumber BN_NaN) = NaN"
| "ToNumber (VWeb3Uint n) = Number_of_int (int n)"

section \<open>Buffers and the BigNumber constructor\<close>

text \<open>The digit of \<open>n < 16\<close>: \<open>0\<close> to \<open>9\<close> from code 48, \<open>a\<close> to \<open>f\<close> from code 97.\<close>

definition hex_digit :: "nat \<Rightarrow> char" where
  "hex_digit n = (if n < 10 then char_of (48 + n) else char_of (87 + n))"

text \<open>\<open>buffer.toString('hex')\<close>: two lower-case hexadecimal digits for each byte.\<close>

fun Buffer_toString_hex :: "byte list \<Rightarrow> string" where
  "Buffer_toString_hex [] = []"
| "Buffer_toString_hex (b # bs) =
     hex_digit (unat b div 16) # hex_digit (unat b mod 16) # Buffer_toString_hex bs"

definition digit_value :: "char \<Rightarrow> nat option" where
  "digit_value c =
     (let n = (of_char c :: nat) in
      if 48 \<le> n \<and> n \<le> 57 then Some (n - 48)
      else if 97 \<le> n \<and> n \<le> 102 then Some (n - 87)
      else None)"

fun parse_digits :: "nat \<Rightarrow> string \<Rightarrow> nat \<Rightarrow> nat option" where
  "parse_digits base [] acc = Some acc"
| "parse_digits base (c # cs) acc =
     (case digit_value c of
        None \<Rightarrow> None
      | Some d \<Rightarrow> if d < base then parse_digits base cs (acc * base + d) else None)"

text \<open>
  \<open>new BigNumber(string)\<close>, for the strings this class can pass: an unsigned literal
  in lower-case digits. bignumber.js takes the prefix \<open>0x\<close> for base 16 only when at
  least one character follows it (its prefix pattern is
  \<^verbatim>\<open>/^(-?)0([xbo])(?=\w[\w.]*$)/i\<close>); the bare string \<open>0x\<close> is read as a decimal
  literal, is not one, and gives \<open>NaN\<close>. Signs, fractions, exponents and upper-case
  digits never reach the constructor from this class and are not modelled.
\<close>

definition BigNumber_new :: "string \<Rightarrow> BigNumber" where
  "BigNumber_new s =
     (if take 2 s = ''0x'' \<and> 2 < length s then
        (case parse_digits 16 (drop 2 s) 0 of Some v \<Rightarrow> BN (int v) | None \<Rightarrow> BN_NaN)
      else if s = [] then BN_NaN
      else (case parse_digits 10 s 0 of Some v \<Rightarrow> BN (int v) | None \<Rightarrow> BN_NaN))"

text \<open>\<open>Buffer.from(uint8Array)\<close> copies the bytes.\<close>

definition Buffer_from :: "byte list \<Rightarrow> byte list" where
  "Buffer_from uint8Array = uint8Array"

text \<open>Lines 120 to 124.\<close>

definition uint8ArrayToBN :: "byte list \<Rightarrow> BigNumber" where
  "uint8ArrayToBN uint8Array =
     (let buffer = Buffer_from uint8Array;
          hex = ''0x'' @ Buffer_toString_hex buffer
      in BigNumber_new hex)"

text \<open>\<open>Buffer.alloc(n)\<close>: \<open>n\<close> zero bytes.\<close>

definition Buffer_alloc :: "nat \<Rightarrow> byte list" where
  "Buffer_alloc n = replicate n 0"

text \<open>
  \<open>buf.writeUInt32BE(value, offset)\<close>: a \<open>RangeError\<close> when the value is outside
  \<open>[0, 2^32 - 1]\<close> or the four bytes do not fit; otherwise the four bytes, most
  significant first, each the low eight bits of the shifted value.
\<close>

definition writeUInt32BE :: "byte list \<Rightarrow> int \<Rightarrow> nat \<Rightarrow> js_error + byte list" where
  "writeUInt32BE buf v offset =
     (if v < 0 \<or> 4294967295 < v \<or> length buf < offset + 4 then Inl RangeError
      else Inr (buf[offset := word_of_int (v div 2 ^ 24),
                    offset + 1 := word_of_int (v div 2 ^ 16),
                    offset + 2 := word_of_int (v div 2 ^ 8),
                    offset + 3 := word_of_int v]))"

text \<open>The value of a byte string read as a big-endian unsigned integer: the words of
  the specification, against which the decoder of the class is compared.\<close>

definition big_endian_value :: "byte list \<Rightarrow> nat" where
  "big_endian_value bs = foldl (\<lambda>acc b. acc * 256 + unat b) 0 bs"

section \<open>The collaborators and the objects of the class\<close>

type_synonym addr = nat

text \<open>What \<open>mpeContract.channels(channelId)\<close> resolves to: \<open>{nonce, expiration, value}\<close>,
  three unsigned integers of the contract.\<close>

datatype ChannelInfo =
  ChannelInfo (info_nonce: nat) (info_expiration: nat) (info_value: nat)

record MPEContract =
  channels :: "int \<Rightarrow> js_error + ChannelInfo"

record Account =
  signedData :: "string \<Rightarrow> int \<Rightarrow> js_error + byte list"

record ChannelStateRequest =
  req_channelId :: "byte list"
  req_signature :: "byte list"

record ChannelStateReply =
  getCurrentNonce :: "byte list"
  getCurrentSignedAmount :: "byte list"

record PaymentChannelStateServiceClient =
  getChannelState :: "ChannelStateRequest \<Rightarrow> js_error + ChannelStateReply"

record ServiceClient =
  paymentChannelStateServiceClient :: PaymentChannelStateServiceClient

type_synonym Web3 = unit

text \<open>
  The state object. The constructor writes the literal \<open>{nonce, lastSignedAmount}\<close>,
  \<open>syncState\<close> the literal with all six properties; a property the literal does not
  have is \<open>None\<close> (reading it gives \<open>undefined\<close>).
\<close>

record ChannelState =
  nonce :: "js_value option"
  currentNonce :: "js_value option"
  expiration :: "js_value option"
  totalAmount :: "js_value option"
  lastSignedAmount :: "js_value option"
  availableAmount :: "js_value option"

text \<open>
  The fields of a \<open>PaymentChannel\<close>, without the leading underscore of the source
  (\<open>stateServiceClient\<close> is \<open>_paymentChannelStateServiceClient\<close>). The channel id,
  a number or a numeric string in the source, is the integer it denotes; the collaborators
  are held as the operations this class calls on them; \<open>state\<close> is a reference to a
  state object.
\<close>

record PaymentChannel =
  channelId :: int
  web3 :: Web3
  account :: Account
  mpeContract :: MPEContract
  stateServiceClient :: PaymentChannelStateServiceClient
  state :: addr

datatype js_object = ChannelObj PaymentChannel | StateObj ChannelState

text \<open>The store: an object's address is its index, a new object goes to the end.\<close>

type_synonym heap = "js_object list"

definition lookup :: "heap \<Rightarrow> addr \<Rightarrow> js_object option" where
  "lookup h a = (if a < length h then Some (h ! a) else None)"

definition alloc :: "heap \<Rightarrow> js_object \<Rightarrow> addr \<times> heap" where
  "alloc h obj = (length h, h @ [obj])"

text \<open>The getter \<open>state\<close> (lines 36 to 38) hands out the reference; \<open>state_of\<close> reads
  the object behind it.\<close>

definition get_state :: "heap \<Rightarrow> addr \<Rightarrow> addr option" where
  "get_state h this =
     (case lookup h this of Some (ChannelObj ch) \<Rightarrow> Some (state ch) | _ \<Rightarrow> None)"

definition state_of :: "heap \<Rightarrow> addr \<Rightarrow> ChannelState option" where
  "state_of h this =
     (case get_state h this of
        None \<Rightarrow> None
      | Some a \<Rightarrow> (case lookup h a of Some (StateObj st) \<Rightarrow> Some st | _ \<Rightarrow> None))"

section \<open>The class\<close>

text \<open>Lines 20 to 23: the literal \<open>{nonce: new BigNumber(0), lastSignedAmount: new
  BigNumber(0)}\<close>.\<close>

definition initialState :: ChannelState where
  "initialState =
     \<lparr>nonce = Some (VBigNumber (BN 0)), currentNonce = None,
      expiration = None, totalAmount = None,
      lastSignedAmount = Some (VBigNumber (BN 0)),
      availableAmount = None\<rparr>"

text \<open>Lines 14 to 24: the first state object and the new channel object that refers to
  it. The result is the address of the channel and the store that holds both.\<close>

definition PaymentChannel_new ::
  "heap \<Rightarrow> int \<Rightarrow> Web3 \<Rightarrow> Account \<Rightarrow> ServiceClient \<Rightarrow> MPEContract \<Rightarrow> addr \<times> heap" where
  "PaymentChannel_new h cid w3 acct service contract =
     (let (s, h1) = alloc h (StateObj initialState)
      in alloc h1 (ChannelObj \<lparr>channelId = cid, web3 = w3, account = acct,
                                mpeContract = contract,
                                stateServiceClient = paymentChannelStateServiceClient service,
                                state = s\<rparr>))"

text \<open>Lines 91 to 98: the signature over \<open>{t: 'uint256', v: channelId}\<close> and the
  request with the channel id in four bytes.\<close>

definition channelStateRequest :: "PaymentChannel \<Rightarrow> js_error + ChannelStateRequest" where
  "channelStateRequest ch =
     (case signedData (account ch) ''uint256'' (channelId ch) of
        Inl e \<Rightarrow> Inl e
      | Inr signatureBytes \<Rightarrow>
          (case writeUInt32BE (Buffer_alloc 4) (channelId ch) 0 of
             Inl e \<Rightarrow> Inl e
           | Inr channelIdBytes \<Rightarrow>
               Inr \<lparr>req_channelId = channelIdBytes, req_signature = signatureBytes\<rparr>))"

text \<open>What \<open>_currentChannelState\<close> resolves to: \<open>{lastSignedAmount, nonce}\<close>.\<close>

datatype CurrentState =
  CurrentState (cs_lastSignedAmount: BigNumber) (cs_nonce: BigNumber)

text \<open>Lines 90 to 118.\<close>

definition currentChannelState :: "PaymentChannel \<Rightarrow> js_error + CurrentState" where
  "currentChannelState ch =
     (case channelStateRequest ch of
        Inl e \<Rightarrow> Inl e
      | Inr request \<Rightarrow>
          (case getChannelState (stateServiceClient ch) request of
             Inl err \<Rightarrow> Inl err
           | Inr response \<Rightarrow>
               (let nonce' = uint8ArrayToBN (getCurrentNonce response);
                    currentSignedAmount = uint8ArrayToBN (getCurrentSignedAmount response)
                in Inr (CurrentState currentSignedAmount nonce'))))"

text \<open>Lines 76 to 86: the two destructurings, the subtraction with JavaScript's own
  \<open>-\<close>, and the object literal with its six properties.\<close>

definition mergedState :: "ChannelInfo \<Rightarrow> CurrentState \<Rightarrow> ChannelState" where
  "mergedState latestChannelInfoOnBlockchain currentState =
     (let lastSignedAmount' = VBigNumber (cs_lastSignedAmount currentState);
          currentNonce' = VBigNumber (cs_nonce currentState);
          nonce' = VWeb3Uint (info_nonce latestChannelInfoOnBlockchain);
          expiration' = VWeb3Uint (info_expiration latestChannelInfoOnBlockchain);
          totalAmount' = VWeb3Uint (info_value latestChannelInfoOnBlockchain);
          availableAmount' =
            VNumber (js_minus (ToNumber totalAmount') (ToNumber lastSignedAmount'))
      in \<lparr>nonce = Some nonce',
          currentNonce = Some currentNonce',
          expiration = Some expiration',
          totalAmount = Some totalAmount',
          lastSignedAmount = Some lastSignedAmount',
          availableAmount = Some availableAmount'\<rparr>)"

text \<open>
  Lines 72 to 88. The result is what the promise settles to (\<open>Inr\<close> the returned
  reference, \<open>Inl\<close> the rejection) together with the store after the call. The method
  ends with \<open>return this\<close>. A \<open>this\<close> that is no channel object has none of the fields
  the method reads: a \<open>TypeError\<close>.
\<close>

definition syncState :: "heap \<Rightarrow> addr \<Rightarrow> (js_error + addr) \<times> heap" where
  "syncState h this =
     (case lookup h this of
        Some (ChannelObj ch) \<Rightarrow>
          (case channels (mpeContract ch) (channelId ch) of
             Inl e \<Rightarrow> (Inl e, h)
           | Inr latestChannelInfoOnBlockchain \<Rightarrow>
               (case currentChannelState ch of
                  Inl e \<Rightarrow> (Inl e, h)
                | Inr currentState \<Rightarrow>
                    (let (s, h1) =
                           alloc h (StateObj (mergedState latestChannelInfoOnBlockchain currentState))
                     in (Inr this, h1[this := ChannelObj (ch\<lparr>state := s\<rparr>)]))))
      | _ \<Rightarrow> (Inl TypeError, h))"

text \<open>Whether a reference points to a state object.\<close>

definition is_state_ref :: "heap \<Rightarrow> addr \<Rightarrow> bool" where
  "is_state_ref h a = (case lookup h a of Some (StateObj st) \<Rightarrow> True | _ \<Rightarrow> False)"

section \<open>Collaborators for the concrete runs\<close>

definition account_signing :: Account where
  "account_signing = \<lparr>signedData = (\<lambda>t v. Inr [27, 1])\<rparr>"

definition contract_returning :: "nat \<Rightarrow> nat \<Rightarrow> nat \<Rightarrow> MPEContract" where
  "contract_returning n e v = \<lparr>channels = (\<lambda>cid. Inr (ChannelInfo n e v))\<rparr>"

definition contract_rejecting :: MPEContract where
  "contract_rejecting = \<lparr>channels = (\<lambda>cid. Inl (Err ''node unreachable''))\<rparr>"

definition service_returning :: "byte list \<Rightarrow> byte list \<Rightarrow> ServiceClient" where
  "service_returning nonceBytes amountBytes =
     \<lparr>paymentChannelStateServiceClient =
        \<lparr>getChannelState =
           (\<lambda>request. Inr \<lparr>getCurrentNonce = nonceBytes,
                              getCurrentSignedAmount = amountBytes\<rparr>)\<rparr>\<rparr>"

definition service_rejecting :: ServiceClient where
  "service_rejecting =
     \<lparr>paymentChannelStateServiceClient =
        \<lparr>getChannelState = (\<lambda>request. Inl (Err ''unavailable''))\<rparr>\<rparr>"

text \<open>Channel 7, constructed in the empty store.\<close>

definition example_channel :: "ServiceClient \<Rightarrow> MPEContract \<Rightarrow> addr \<times> heap" where
  "example_channel service contract =
     PaymentChannel_new [] 7 () account_signing service contract"

section \<open>Decoding bytes\<close>

lemma hex_digit_table: "map hex_digit [0..<16] = ''0123456789abcdef''"
  by code_simp

lemma digit_value_hex_digit: "n < 16 \<Longrightarrow> digit_value (hex_digit n) = Some n"
  by (simp add: hex_digit_def digit_value_def)

lemma byte_split:
  "(acc * 16 + unat (b :: byte) div 16) * 16 + unat b mod 16 = acc * 256 + unat b"
  by arith

lemma unat_byte_less: "unat (b :: byte) < 256"
proof -
  have "unat b < 2 ^ LENGTH(8)" by (rule unsigned_less)
  then show ?thesis by simp
qed

text \<open>Reading the hexadecimal text of a buffer in base 16 never fails and gives the
  big-endian value of its bytes.\<close>

lemma parse_digits_hex:
  "parse_digits 16 (Buffer_toString_hex bs) acc =
     Some (foldl (\<lambda>a b. a * 256 + unat b) acc bs)"
proof (induction bs arbitrary: acc)
  case Nil
  show ?case by simp
next
  case (Cons b bs)
  have hi: "unat b div 16 < 16"
    using unat_byte_less [of b] by arith
  have lo: "unat b mod 16 < 16" by simp
  have "parse_digits 16 (Buffer_toString_hex (b # bs)) acc =
      parse_digits 16 (Buffer_toString_hex bs)
        ((acc * 16 + unat b div 16) * 16 + unat b mod 16)"
    using hi lo by (simp add: digit_value_hex_digit)
  then show ?case
    by (simp only: byte_split Cons.IH foldl_Cons)
qed

lemma uint8ArrayToBN_nonempty:
  assumes "bs \<noteq> []"
  shows "uint8ArrayToBN bs = BN (int (big_endian_value bs))"
proof -
  from assms obtain b bs' where bs: "bs = b # bs'"
    by (cases bs) auto
  have len: "2 < length (''0x'' @ Buffer_toString_hex bs)"
    by (simp add: bs)
  have "BigNumber_new (''0x'' @ Buffer_toString_hex bs) =
      (case parse_digits 16 (Buffer_toString_hex bs) 0 of
         Some v \<Rightarrow> BN (int v) | None \<Rightarrow> BN_NaN)"
    using len by (simp add: BigNumber_new_def)
  then show ?thesis
    by (simp add: uint8ArrayToBN_def Buffer_from_def parse_digits_hex big_endian_value_def)
qed

lemma big_endian_value_zeros: "big_endian_value (replicate n 0) = 0"
proof -
  have "foldl (\<lambda>acc (b :: byte). acc * 256 + unat b) 0 (replicate n 0) = 0"
    by (induction n) simp_all
  then show ?thesis by (simp add: big_endian_value_def)
qed

lemma uint8ArrayToBN_zeros: "0 < n \<Longrightarrow> uint8ArrayToBN (replicate n 0) = BN 0"
  by (simp add: uint8ArrayToBN_nonempty big_endian_value_zeros)

text \<open>The four byte strings of the specification's round-trip property (P4).\<close>

lemma decode_examples:
  "uint8ArrayToBN [0] = BN 0"
  "uint8ArrayToBN [1] = BN 1"
  "uint8ArrayToBN [255, 255, 255, 255] = BN (2 ^ 32 - 1)"
  "uint8ArrayToBN [1, 0, 0, 0, 0, 0, 0, 0, 0, 0, 0, 0, 0, 0, 0, 0, 0, 0, 0, 0, 1] = BN (2 ^ 160 + 1)"
  by (simp_all add: uint8ArrayToBN_nonempty big_endian_value_def)

text \<open>
  C2. The specification asks that every byte array decodes to its big-endian unsigned
  value, the zero-length array to zero. On a non-empty array the decoder does so
  (\<open>uint8ArrayToBN_nonempty\<close>, \<open>uint8ArrayToBN_zeros\<close>). On the zero-length array the
  text handed to the constructor is the bare prefix \<open>0x\<close>, and the result is
  \<open>NaN\<close>, not zero.
\<close>

theorem uint8ArrayToBN_empty_is_NaN:
  "uint8ArrayToBN [] = BN_NaN \<and> uint8ArrayToBN [] \<noteq> BN (int (big_endian_value []))"
  by (simp add: uint8ArrayToBN_def Buffer_from_def BigNumber_new_def digit_value_def)

section \<open>The channel id in the request\<close>

lemma Buffer_alloc_4: "Buffer_alloc 4 = [0, 0, 0, 0]"
  by (simp add: Buffer_alloc_def numeral_eq_Suc)

lemma four_updates:
  "[a, b, c, d][0 := w, 0 + 1 := x, 0 + 2 := y, 0 + 3 := z] = [w, x, y, z]"
  by (simp add: numeral_2_eq_2 numeral_3_eq_3)

lemma writeUInt32BE_bytes:
  assumes "0 \<le> v" "v < 2 ^ 32"
  shows "writeUInt32BE (Buffer_alloc 4) v 0 =
     Inr [word_of_int (v div 2 ^ 24), word_of_int (v div 2 ^ 16),
          word_of_int (v div 2 ^ 8), word_of_int v]"
proof -
  have "\<not> (v < 0 \<or> 4294967295 < v \<or> length (Buffer_alloc 4) < 0 + 4)"
    using assms by (simp add: Buffer_alloc_4)
  then show ?thesis
    unfolding writeUInt32BE_def Buffer_alloc_4 four_updates by simp
qed

lemma writeUInt32BE_out_of_range:
  "v < 0 \<or> 2 ^ 32 \<le> v \<Longrightarrow> writeUInt32BE buf v offset = Inl RangeError"
  by (auto simp: writeUInt32BE_def)

lemma unat_byte_of_int: "unat (word_of_int k :: byte) = nat (k mod 256)"
  by (simp add: unat_eq_nat_uint uint_word_of_int)

lemma four_bytes_value:
  fixes v :: int
  assumes "0 \<le> v" "v < 2 ^ 32"
  shows "(((v div 2 ^ 24) mod 256 * 256 + (v div 2 ^ 16) mod 256) * 256
            + (v div 2 ^ 8) mod 256) * 256 + v mod 256 = v"
proof -
  define v1 where "v1 = v div 256"
  define v2 where "v2 = v1 div 256"
  define v3 where "v3 = v2 div 256"
  have d8: "v div 2 ^ 8 = v1" by (simp add: v1_def)
  have d16: "v div 2 ^ 16 = v2"
    using zdiv_zmult2_eq [of 256 v 256] by (simp add: v1_def v2_def)
  have d24: "v div 2 ^ 24 = v3"
    using zdiv_zmult2_eq [of 65536 v 256] d16 by (simp add: v3_def)
  have "v3 < 256" "0 \<le> v3"
    using assms d24 [symmetric] by simp_all
  then have m3: "v3 mod 256 = v3" by simp
  have e1: "v = v1 * 256 + v mod 256" by (simp add: v1_def)
  have e2: "v1 = v2 * 256 + v1 mod 256" by (simp add: v2_def)
  have e3: "v2 = v3 * 256 + v2 mod 256" by (simp add: v3_def)
  show ?thesis
    unfolding d8 d16 d24 m3 using e1 e2 e3 by simp
qed

lemma big_endian_four:
  fixes v :: int
  assumes "0 \<le> v" "v < 2 ^ 32"
  shows "int (big_endian_value [word_of_int (v div 2 ^ 24), word_of_int (v div 2 ^ 16),
          word_of_int (v div 2 ^ 8), word_of_int v]) = v"
proof -
  define a where "a = (v div 2 ^ 24) mod 256"
  define b where "b = (v div 2 ^ 16) mod 256"
  define c where "c = (v div 2 ^ 8) mod 256"
  define d where "d = v mod 256"
  have nn: "0 \<le> a" "0 \<le> b" "0 \<le> c" "0 \<le> d"
    by (simp_all add: a_def b_def c_def d_def)
  have "big_endian_value [word_of_int (v div 2 ^ 24), word_of_int (v div 2 ^ 16),
          word_of_int (v div 2 ^ 8), word_of_int v] =
        (((0 * 256 + nat a) * 256 + nat b) * 256 + nat c) * 256 + nat d"
    by (simp only: big_endian_value_def foldl_Cons foldl_Nil unat_byte_of_int
        a_def b_def c_def d_def)
  also have "int \<dots> = ((a * 256 + b) * 256 + c) * 256 + d"
    using nn by simp
  also have "\<dots> = v"
    unfolding a_def b_def c_def d_def by (rule four_bytes_value [OF assms])
  finally show ?thesis .
qed

text \<open>
  C6. For a channel id in \<open>[0, 2^32 - 1)\<close> (and an account that signs), the request
  carries the id in exactly four bytes whose big-endian value is the id, and the decoder
  of the class reads the id back from them.
\<close>

theorem channelId_four_bytes_roundtrip:
  assumes "0 \<le> channelId ch" and "channelId ch < 2 ^ 32 - 1"
    and "signedData (account ch) ''uint256'' (channelId ch) = Inr sig"
  shows "\<exists>bs. channelStateRequest ch = Inr \<lparr>req_channelId = bs, req_signature = sig\<rparr>
           \<and> length bs = 4
           \<and> int (big_endian_value bs) = channelId ch
           \<and> uint8ArrayToBN bs = BN (channelId ch)"
proof -
  let ?v = "channelId ch"
  let ?bs = "[word_of_int (?v div 2 ^ 24), word_of_int (?v div 2 ^ 16),
          word_of_int (?v div 2 ^ 8), word_of_int ?v] :: byte list"
  have range: "0 \<le> ?v" "?v < 2 ^ 32"
    using assms(1,2) by simp_all
  have req: "channelStateRequest ch = Inr \<lparr>req_channelId = ?bs, req_signature = sig\<rparr>"
    by (simp add: channelStateRequest_def assms(3) writeUInt32BE_bytes [OF range])
  have val: "int (big_endian_value ?bs) = ?v"
    by (rule big_endian_four [OF range])
  have "uint8ArrayToBN ?bs = BN (int (big_endian_value ?bs))"
    by (rule uint8ArrayToBN_nonempty) simp
  with req val show ?thesis
    by (intro exI [of _ ?bs]) simp
qed

theorem channelId_four_bytes_roundtrip_witness:
  "(0 :: int) \<le> 258 \<and> (258 :: int) < 2 ^ 32 - 1
   \<and> (\<exists>bs. channelStateRequest
          \<lparr>channelId = 258, web3 = (), account = account_signing,
            mpeContract = contract_rejecting,
            stateServiceClient = paymentChannelStateServiceClient service_rejecting,
            state = 0\<rparr> = Inr \<lparr>req_channelId = bs, req_signature = [27, 1]\<rparr>
        \<and> length bs = 4 \<and> int (big_endian_value bs) = 258 \<and> uint8ArrayToBN bs = BN 258)"
  using channelId_four_bytes_roundtrip [of
      "\<lparr>channelId = 258, web3 = (), account = account_signing,
        mpeContract = contract_rejecting,
        stateServiceClient = paymentChannelStateServiceClient service_rejecting,
        state = 0\<rparr>" "[27, 1]"]
  by (simp add: account_signing_def)

section \<open>The store and the branches of \<open>syncState\<close>\<close>

lemma lookup_Some_less: "lookup h a = Some obj \<Longrightarrow> a < length h"
  by (simp add: lookup_def split: if_splits)

lemma lookup_installed_this:
  "this < length h \<Longrightarrow> lookup ((h @ [x])[this := y]) this = Some y"
  by (simp add: lookup_def)

lemma lookup_installed_new:
  "this < length h \<Longrightarrow> lookup ((h @ [x])[this := y]) (length h) = Some x"
  by (simp add: lookup_def nth_append)

lemma lookup_installed_other:
  "a < length h \<Longrightarrow> a \<noteq> this \<Longrightarrow> lookup ((h @ [x])[this := y]) a = lookup h a"
  by (simp add: lookup_def nth_append)

text \<open>The method on a channel object, branch by branch.\<close>

lemma syncState_contract_rejects:
  assumes "lookup h this = Some (ChannelObj ch)"
    and "channels (mpeContract ch) (channelId ch) = Inl e"
  shows "syncState h this = (Inl e, h)"
  using assms by (simp add: syncState_def)

lemma syncState_service_rejects:
  assumes "lookup h this = Some (ChannelObj ch)"
    and "channels (mpeContract ch) (channelId ch) = Inr info"
    and "currentChannelState ch = Inl e"
  shows "syncState h this = (Inl e, h)"
  using assms by (simp add: syncState_def)

lemma syncState_succeeds:
  assumes "lookup h this = Some (ChannelObj ch)"
    and "channels (mpeContract ch) (channelId ch) = Inr info"
    and "currentChannelState ch = Inr cs"
  shows "syncState h this =
     (Inr this, (h @ [StateObj (mergedState info cs)])
                   [this := ChannelObj (ch\<lparr>state := length h\<rparr>)])"
  using assms by (simp add: syncState_def alloc_def)

lemma syncState_Inl_heap: "syncState h this = (Inl e, h') \<Longrightarrow> h' = h"
  by (auto simp: syncState_def alloc_def split: option.splits js_object.splits sum.splits)

lemma syncState_Inr_cases:
  assumes "syncState h this = (Inr r, h')"
  obtains ch info cs where
    "lookup h this = Some (ChannelObj ch)"
    "channels (mpeContract ch) (channelId ch) = Inr info"
    "currentChannelState ch = Inr cs"
    "r = this"
    "h' = (h @ [StateObj (mergedState info cs)])[this := ChannelObj (ch\<lparr>state := length h\<rparr>)]"
  using assms
  by (auto simp: syncState_def alloc_def split: option.splits js_object.splits sum.splits)

lemma state_of_installed:
  assumes "this < length h"
  shows "state_of ((h @ [StateObj st])[this := ChannelObj (ch\<lparr>state := length h\<rparr>)]) this = Some st"
  using assms
  by (simp add: state_of_def get_state_def lookup_installed_this lookup_installed_new)

lemma currentChannelState_Inr:
  assumes "channelStateRequest ch = Inr req"
    and "getChannelState (stateServiceClient ch) req = Inr reply"
  shows "currentChannelState ch =
     Inr (CurrentState (uint8ArrayToBN (getCurrentSignedAmount reply))
                       (uint8ArrayToBN (getCurrentNonce reply)))"
  using assms by (simp add: currentChannelState_def)

lemma currentChannelState_rejected:
  assumes "channelStateRequest ch = Inr req"
    and "getChannelState (stateServiceClient ch) req = Inl err"
  shows "currentChannelState ch = Inl err"
  using assms by (simp add: currentChannelState_def)

lemma mergedState_fields:
  "nonce (mergedState info cs) = Some (VWeb3Uint (info_nonce info))"
  "currentNonce (mergedState info cs) = Some (VBigNumber (cs_nonce cs))"
  "expiration (mergedState info cs) = Some (VWeb3Uint (info_expiration info))"
  "totalAmount (mergedState info cs) = Some (VWeb3Uint (info_value info))"
  "lastSignedAmount (mergedState info cs) = Some (VBigNumber (cs_lastSignedAmount cs))"
  "availableAmount (mergedState info cs) =
     Some (VNumber (js_minus (ToNumber (VWeb3Uint (info_value info)))
                             (ToNumber (VBigNumber (cs_lastSignedAmount cs)))))"
  by (simp_all add: mergedState_def Let_def)

lemma get_state_installed:
  assumes "this < length h"
  shows "get_state ((h @ [x])[this := ChannelObj (ch\<lparr>state := length h\<rparr>)]) this =
     Some (length h)"
  using assms by (simp add: get_state_def lookup_installed_this)

lemma not_state_ref_installed:
  assumes "this < length h"
  shows "\<not> is_state_ref ((h @ [x])[this := ChannelObj c]) this"
  using assms by (simp add: is_state_ref_def lookup_installed_this)

lemma state_of_after_sync:
  assumes "syncState h this = (Inr r, h')"
  obtains info cs where "state_of h' this = Some (mergedState info cs)"
proof -
  from assms obtain ch info cs where
    l: "lookup h this = Some (ChannelObj ch)" and
    h': "h' = (h @ [StateObj (mergedState info cs)])[this := ChannelObj (ch\<lparr>state := length h\<rparr>)]"
    by (rule syncState_Inr_cases)
  have "this < length h"
    using l by (rule lookup_Some_less)
  then have "state_of h' this = Some (mergedState info cs)"
    unfolding h' by (rule state_of_installed)
  then show ?thesis ..
qed

section \<open>The constructor\<close>

lemma PaymentChannel_new_result:
  "PaymentChannel_new h cid w3 acct service contract =
     (Suc (length h),
      h @ [StateObj initialState,
           ChannelObj \<lparr>channelId = cid, web3 = w3, account = acct,
                       mpeContract = contract,
                       stateServiceClient = paymentChannelStateServiceClient service,
                       state = length h\<rparr>])"
  by (simp add: PaymentChannel_new_def alloc_def)

lemma lookup_new_channel: "lookup (h @ [s, c]) (Suc (length h)) = Some c"
  by (simp add: lookup_def nth_append)

lemma lookup_new_state: "lookup (h @ [s, c]) (length h) = Some s"
  by (simp add: lookup_def nth_append)

lemma state_of_new:
  "state_of (h @ [StateObj st, ChannelObj \<lparr>channelId = cid, web3 = w3, account = acct,
                       mpeContract = contract, stateServiceClient = client,
                       state = length h\<rparr>]) (Suc (length h)) = Some st"
  by (simp add: state_of_def get_state_def lookup_new_channel lookup_new_state)

section \<open>Concrete runs\<close>

lemma example_channel_result:
  "example_channel service contract =
     (1, [StateObj initialState,
          ChannelObj \<lparr>channelId = 7, web3 = (), account = account_signing,
                      mpeContract = contract,
                      stateServiceClient = paymentChannelStateServiceClient service,
                      state = 0\<rparr>])"
  by (simp add: example_channel_def PaymentChannel_new_result)

lemma example_channel_lookup:
  "lookup (snd (example_channel service contract)) (fst (example_channel service contract)) =
     Some (ChannelObj \<lparr>channelId = 7, web3 = (), account = account_signing,
                      mpeContract = contract,
                      stateServiceClient = paymentChannelStateServiceClient service,
                      state = 0\<rparr>)"
  by (simp add: example_channel_result lookup_def)

lemma example_request:
  "channelStateRequest \<lparr>channelId = 7, web3 = (), account = account_signing,
                      mpeContract = contract, stateServiceClient = client, state = 0\<rparr> =
     Inr \<lparr>req_channelId = [0, 0, 0, 7], req_signature = [27, 1]\<rparr>"
  by (simp add: channelStateRequest_def account_signing_def writeUInt32BE_bytes)

lemma example_currentChannelState:
  "currentChannelState \<lparr>channelId = 7, web3 = (), account = account_signing,
        mpeContract = contract,
        stateServiceClient = paymentChannelStateServiceClient (service_returning nb ab),
        state = 0\<rparr> =
     Inr (CurrentState (uint8ArrayToBN ab) (uint8ArrayToBN nb))"
  by (simp add: currentChannelState_def example_request service_returning_def)

lemma example_currentChannelState_rejecting:
  "currentChannelState \<lparr>channelId = 7, web3 = (), account = account_signing,
        mpeContract = contract,
        stateServiceClient = paymentChannelStateServiceClient service_rejecting,
        state = 0\<rparr> =
     Inl (Err ''unavailable'')"
  by (simp add: currentChannelState_def example_request service_rejecting_def)

lemma example_syncState:
  "syncState (snd (example_channel (service_returning nb ab) (contract_returning n e v)))
       (fst (example_channel (service_returning nb ab) (contract_returning n e v))) =
     (Inr 1,
      [StateObj initialState,
       ChannelObj \<lparr>channelId = 7, web3 = (), account = account_signing,
                   mpeContract = contract_returning n e v,
                   stateServiceClient =
                     paymentChannelStateServiceClient (service_returning nb ab),
                   state = 2\<rparr>,
       StateObj (mergedState (ChannelInfo n e v)
                   (CurrentState (uint8ArrayToBN ab) (uint8ArrayToBN nb)))])"
proof -
  have "channels (contract_returning n e v) 7 = Inr (ChannelInfo n e v)"
    by (simp add: contract_returning_def)
  then show ?thesis
    using syncState_succeeds [OF example_channel_lookup [of "service_returning nb ab" "contract_returning n e v"], 
             of "ChannelInfo n e v" "CurrentState (uint8ArrayToBN ab) (uint8ArrayToBN nb)"]
    by (simp add: example_currentChannelState example_channel_result)
qed


lemma example_syncState_rejected:
  "syncState (snd (example_channel service_rejecting (contract_returning n e v)))
       (fst (example_channel service_rejecting (contract_returning n e v))) =
     (Inl (Err ''unavailable''),
      snd (example_channel service_rejecting (contract_returning n e v)))"
proof -
  have "channels (contract_returning n e v) 7 = Inr (ChannelInfo n e v)"
    by (simp add: contract_returning_def)
  then show ?thesis
    using syncState_service_rejects [OF example_channel_lookup
        [of service_rejecting "contract_returning n e v"],
        of "ChannelInfo n e v" "Err ''unavailable''"]
    by (simp add: example_currentChannelState_rejecting)
qed

section \<open>Doubles\<close>

lemma bitlen_le: "n < 2 ^ k \<Longrightarrow> bitlen n \<le> k"
proof (induction k arbitrary: n)
  case 0
  then show ?case by (simp add: bitlen.simps)
next
  case (Suc k)
  then have "n div 2 < 2 ^ k" by simp
  then have "bitlen (n div 2) \<le> k" by (rule Suc.IH)
  then show ?case by (subst bitlen.simps) simp
qed

lemma round53_small: "n < 2 ^ 53 \<Longrightarrow> round53 n = n"
  using bitlen_le [of n 53] by (simp add: round53_def)

lemma Number_of_int_exact:
  assumes "\<bar>i\<bar> < 2 ^ 53"
  shows "Number_of_int i = Finite i"
proof -
  have "nat \<bar>i\<bar> < 2 ^ 53"
    using assms by (simp add: nat_less_iff)
  then have r: "round53 (nat \<bar>i\<bar>) = nat \<bar>i\<bar>"
    by (rule round53_small)
  have "nat \<bar>i\<bar> < 2 ^ 1024"
    using \<open>nat \<bar>i\<bar> < 2 ^ 53\<close> power_strict_increasing [of 53 1024 "2 :: nat"] by simp
  then show ?thesis
    by (simp add: Number_of_int_def r not_le Let_def)
qed

lemma js_minus_exact:
  assumes "0 \<le> a" "a < 2 ^ 53" "0 \<le> b" "b < 2 ^ 53"
  shows "js_minus (Number_of_int a) (Number_of_int b) = Finite (a - b)"
proof -
  have "\<bar>a\<bar> < 2 ^ 53" "\<bar>b\<bar> < 2 ^ 53" "\<bar>a - b\<bar> < 2 ^ 53"
    using assms by simp_all
  then show ?thesis
    by (simp add: Number_of_int_exact)
qed

lemma Number_of_2_53_plus_1: "Number_of_int 9007199254740993 = Finite 9007199254740992"
  by (simp add: Number_of_int_def round53_def bitlen.simps Let_def)

lemma Number_of_2_53: "Number_of_int 9007199254740992 = Finite 9007199254740992"
  by (simp add: Number_of_int_def round53_def bitlen.simps Let_def)

lemma Number_of_0: "Number_of_int 0 = Finite 0"
  by (simp add: Number_of_int_def round53_def bitlen.simps Let_def)

lemma fixture_bytes:
  "uint8ArrayToBN [0] = BN 0" "uint8ArrayToBN [3] = BN 3" "uint8ArrayToBN [4] = BN 4"
  "uint8ArrayToBN [32, 0, 0, 0, 0, 0, 1] = BN 9007199254740993"
  by (simp_all add: uint8ArrayToBN_nonempty big_endian_value_def)

text \<open>The scenario of the specification: the contract reports \<open>10^18\<close>, the service a
  signed amount of \<open>2.5 * 10^17\<close>; all three amounts are doubles.\<close>

lemma scenario_example:
  "syncState (snd (example_channel (service_returning [3] [3, 120, 45, 172, 233, 217, 0, 0])
                                   (contract_returning 3 900000 1000000000000000000)))
             (fst (example_channel (service_returning [3] [3, 120, 45, 172, 233, 217, 0, 0])
                                   (contract_returning 3 900000 1000000000000000000))) =
     (Inr 1,
      [StateObj initialState,
       ChannelObj \<lparr>channelId = 7, web3 = (), account = account_signing,
                   mpeContract = contract_returning 3 900000 1000000000000000000,
                   stateServiceClient =
                     paymentChannelStateServiceClient
                       (service_returning [3] [3, 120, 45, 172, 233, 217, 0, 0]),
                   state = 2\<rparr>,
       StateObj \<lparr>nonce = Some (VWeb3Uint 3),
                 currentNonce = Some (VBigNumber (BN 3)),
                 expiration = Some (VWeb3Uint 900000),
                 totalAmount = Some (VWeb3Uint 1000000000000000000),
                 lastSignedAmount = Some (VBigNumber (BN 250000000000000000)),
                 availableAmount = Some (VNumber (Finite 750000000000000000))\<rparr>])"
proof -
  have b: "uint8ArrayToBN [3, 120, 45, 172, 233, 217, 0, 0] = BN 250000000000000000"
    by (simp add: uint8ArrayToBN_nonempty big_endian_value_def)
  have n: "Number_of_int 1000000000000000000 = Finite 1000000000000000000"
    "Number_of_int 250000000000000000 = Finite 250000000000000000"
    "Number_of_int 750000000000000000 = Finite 750000000000000000"
    by (simp_all add: Number_of_int_def round53_def bitlen.simps Let_def)
  show ?thesis
    by (simp add: example_syncState mergedState_def fixture_bytes b n)
qed

section \<open>The state of a new channel\<close>

text \<open>
  C8. Every newly constructed channel, before any \<open>syncState\<close>, holds a state object in
  which \<open>nonce\<close> is the BigNumber 0 and \<open>lastSignedAmount\<close> is the BigNumber 0.
\<close>

theorem constructor_state_is_zero:
  assumes "PaymentChannel_new h cid w3 acct service contract = (this, h')"
  shows "\<exists>st. state_of h' this = Some st
           \<and> nonce st = Some (VBigNumber (BN 0))
           \<and> lastSignedAmount st = Some (VBigNumber (BN 0))"
  using assms unfolding PaymentChannel_new_result
  by (auto simp: state_of_new initialState_def)

theorem constructor_state_is_zero_witness:
  "PaymentChannel_new [] 7 () account_signing service_rejecting contract_rejecting =
     (1, [StateObj initialState,
          ChannelObj \<lparr>channelId = 7, web3 = (), account = account_signing,
                      mpeContract = contract_rejecting,
                      stateServiceClient = paymentChannelStateServiceClient service_rejecting,
                      state = 0\<rparr>])
   \<and> (\<exists>st. state_of [StateObj initialState,
          ChannelObj \<lparr>channelId = 7, web3 = (), account = account_signing,
                      mpeContract = contract_rejecting,
                      stateServiceClient = paymentChannelStateServiceClient service_rejecting,
                      state = 0\<rparr>] 1 = Some st
           \<and> nonce st = Some (VBigNumber (BN 0))
           \<and> lastSignedAmount st = Some (VBigNumber (BN 0)))"
proof -
  have new: "PaymentChannel_new [] 7 () account_signing service_rejecting contract_rejecting =
     (1, [StateObj initialState,
          ChannelObj \<lparr>channelId = 7, web3 = (), account = account_signing,
                      mpeContract = contract_rejecting,
                      stateServiceClient = paymentChannelStateServiceClient service_rejecting,
                      state = 0\<rparr>])"
    by (simp add: PaymentChannel_new_result)
  show ?thesis
    using new constructor_state_is_zero [OF new] by simp
qed

text \<open>
  C10. The state of a freshly constructed channel has the properties \<open>nonce\<close> and
  \<open>lastSignedAmount\<close> only; \<open>currentNonce\<close>, \<open>expiration\<close>, \<open>totalAmount\<close> and
  \<open>availableAmount\<close> are absent. A \<open>syncState\<close> that fails leaves it so, and the first
  one that succeeds installs a state with all six properties.
\<close>

theorem unsynced_state_has_two_fields:
  assumes "PaymentChannel_new h cid w3 acct service contract = (this, h')"
  shows "\<exists>st. state_of h' this = Some st
           \<and> nonce st \<noteq> None \<and> lastSignedAmount st \<noteq> None
           \<and> currentNonce st = None \<and> expiration st = None
           \<and> totalAmount st = None \<and> availableAmount st = None
           \<and> (\<forall>e h''. syncState h' this = (Inl e, h'') \<longrightarrow> state_of h'' this = Some st)
           \<and> (\<forall>r h''. syncState h' this = (Inr r, h'') \<longrightarrow>
                 (\<exists>st'. state_of h'' this = Some st'
                     \<and> nonce st' \<noteq> None \<and> lastSignedAmount st' \<noteq> None
                     \<and> currentNonce st' \<noteq> None \<and> expiration st' \<noteq> None
                     \<and> totalAmount st' \<noteq> None \<and> availableAmount st' \<noteq> None))"
proof -
  have st: "state_of h' this = Some initialState"
    using assms unfolding PaymentChannel_new_result by (auto simp: state_of_new)
  have failed: "state_of h'' this = Some initialState"
    if "syncState h' this = (Inl e, h'')" for e h''
    using syncState_Inl_heap [OF that] st by simp
  have synced: "\<exists>st'. state_of h'' this = Some st'
                     \<and> nonce st' \<noteq> None \<and> lastSignedAmount st' \<noteq> None
                     \<and> currentNonce st' \<noteq> None \<and> expiration st' \<noteq> None
                     \<and> totalAmount st' \<noteq> None \<and> availableAmount st' \<noteq> None"
    if "syncState h' this = (Inr r, h'')" for r h''
  proof -
    from that obtain info cs where "state_of h'' this = Some (mergedState info cs)"
      by (rule state_of_after_sync)
    then show ?thesis
      by (simp add: mergedState_fields)
  qed
  show ?thesis
    using st failed synced by (intro exI [of _ initialState]) (simp add: initialState_def)
qed

theorem unsynced_state_has_two_fields_witness:
  "state_of (snd (example_channel service_rejecting (contract_returning 3 900000 1000)))
            (fst (example_channel service_rejecting (contract_returning 3 900000 1000))) =
     Some \<lparr>nonce = Some (VBigNumber (BN 0)), currentNonce = None,
            expiration = None, totalAmount = None,
            lastSignedAmount = Some (VBigNumber (BN 0)), availableAmount = None\<rparr>
   \<and> fst (syncState (snd (example_channel service_rejecting (contract_returning 3 900000 1000)))
                     (fst (example_channel service_rejecting (contract_returning 3 900000 1000)))) =
       Inl (Err ''unavailable'')
   \<and> state_of
        (snd (syncState (snd (example_channel service_rejecting (contract_returning 3 900000 1000)))
                     (fst (example_channel service_rejecting (contract_returning 3 900000 1000)))))
        (fst (example_channel service_rejecting (contract_returning 3 900000 1000))) =
     Some \<lparr>nonce = Some (VBigNumber (BN 0)), currentNonce = None,
            expiration = None, totalAmount = None,
            lastSignedAmount = Some (VBigNumber (BN 0)), availableAmount = None\<rparr>
   \<and> fst (syncState (snd (example_channel (service_returning [3] [250]) (contract_returning 3 900000 1000)))
                     (fst (example_channel (service_returning [3] [250]) (contract_returning 3 900000 1000)))) =
       Inr 1
   \<and> (\<exists>st'. state_of
        (snd (syncState (snd (example_channel (service_returning [3] [250]) (contract_returning 3 900000 1000)))
                     (fst (example_channel (service_returning [3] [250]) (contract_returning 3 900000 1000)))))
        (fst (example_channel (service_returning [3] [250]) (contract_returning 3 900000 1000))) =
          Some st'
        \<and> currentNonce st' = Some (VBigNumber (BN 3))
        \<and> expiration st' = Some (VWeb3Uint 900000)
        \<and> totalAmount st' = Some (VWeb3Uint 1000)
        \<and> availableAmount st' = Some (VNumber (Finite 750)))"
proof -
  let ?a = "example_channel service_rejecting (contract_returning 3 900000 1000)"
  let ?b = "example_channel (service_returning [3] [250]) (contract_returning 3 900000 1000)"
  have na: "PaymentChannel_new [] 7 () account_signing service_rejecting
      (contract_returning 3 900000 1000) = (fst ?a, snd ?a)"
    by (simp add: example_channel_def)
  have nb: "PaymentChannel_new [] 7 () account_signing (service_returning [3] [250])
      (contract_returning 3 900000 1000) = (fst ?b, snd ?b)"
    by (simp add: example_channel_def)
  note ra = example_syncState_rejected [of 3 900000 1000]
  note rb = example_syncState [of "[3]" "[250]" 3 900000 1000]
  have amount: "js_minus (Number_of_int 1000) (Number_of_int 250) = Finite 750"
    by (simp add: js_minus_exact)
  have "uint8ArrayToBN [250] = BN 250"
    by (simp add: uint8ArrayToBN_nonempty big_endian_value_def)
  then have merged: "mergedState (ChannelInfo 3 900000 1000)
       (CurrentState (uint8ArrayToBN [250]) (uint8ArrayToBN [3])) =
     \<lparr>nonce = Some (VWeb3Uint 3), currentNonce = Some (VBigNumber (BN 3)),
      expiration = Some (VWeb3Uint 900000), totalAmount = Some (VWeb3Uint 1000),
      lastSignedAmount = Some (VBigNumber (BN 250)),
      availableAmount = Some (VNumber (Finite 750))\<rparr>"
    by (simp add: mergedState_def fixture_bytes amount)
  show ?thesis
    using unsynced_state_has_two_fields [OF na] unsynced_state_has_two_fields [OF nb] ra rb merged
    by (auto simp: example_channel_result state_of_def get_state_def lookup_def initialState_def)
qed
section \<open>What \<open>syncState\<close> does to the store\<close>

text \<open>
  C3. When the read of the contract rejects, or the query of the service
  (\<open>_currentChannelState\<close>) rejects, \<open>syncState\<close> rejects and the store after the call
  is the store before it: the state the channel holds is untouched and nothing of a
  merge is committed.
\<close>

theorem syncState_failure_keeps_state:
  assumes "lookup h this = Some (ChannelObj ch)"
    and "channels (mpeContract ch) (channelId ch) = Inl e \<or> currentChannelState ch = Inl e"
  shows "(\<exists>e'. fst (syncState h this) = Inl e')
       \<and> snd (syncState h this) = h
       \<and> state_of (snd (syncState h this)) this = state_of h this"
proof (cases "channels (mpeContract ch) (channelId ch)")
  case (Inl e1)
  then show ?thesis
    by (simp add: syncState_contract_rejects [OF assms(1)])
next
  case (Inr info)
  with assms(2) have "currentChannelState ch = Inl e"
    by simp
  then show ?thesis
    by (simp add: syncState_service_rejects [OF assms(1) Inr])
qed

theorem syncState_failure_keeps_state_witness:
  "lookup (snd (example_channel service_rejecting (contract_returning 3 900000 1000)))
          (fst (example_channel service_rejecting (contract_returning 3 900000 1000))) =
     Some (ChannelObj \<lparr>channelId = 7, web3 = (), account = account_signing,
                      mpeContract = contract_returning 3 900000 1000,
                      stateServiceClient = paymentChannelStateServiceClient service_rejecting,
                      state = 0\<rparr>)
   \<and> currentChannelState \<lparr>channelId = 7, web3 = (), account = account_signing,
                      mpeContract = contract_returning 3 900000 1000,
                      stateServiceClient = paymentChannelStateServiceClient service_rejecting,
                      state = 0\<rparr> = Inl (Err ''unavailable'')
   \<and> fst (syncState (snd (example_channel service_rejecting (contract_returning 3 900000 1000)))
                     (fst (example_channel service_rejecting (contract_returning 3 900000 1000)))) =
       Inl (Err ''unavailable'')
   \<and> snd (syncState (snd (example_channel service_rejecting (contract_returning 3 900000 1000)))
                     (fst (example_channel service_rejecting (contract_returning 3 900000 1000)))) =
       snd (example_channel service_rejecting (contract_returning 3 900000 1000))
   \<and> state_of (snd (syncState (snd (example_channel service_rejecting (contract_returning 3 900000 1000)))
                     (fst (example_channel service_rejecting (contract_returning 3 900000 1000)))))
         (fst (example_channel service_rejecting (contract_returning 3 900000 1000))) =
       Some initialState"
proof -
  let ?w = "example_channel service_rejecting (contract_returning 3 900000 1000)"
  let ?ch = "\<lparr>channelId = 7, web3 = (), account = account_signing,
                      mpeContract = contract_returning 3 900000 1000,
                      stateServiceClient = paymentChannelStateServiceClient service_rejecting,
                      state = 0\<rparr>"
  have l: "lookup (snd ?w) (fst ?w) = Some (ChannelObj ?ch)"
    by (rule example_channel_lookup)
  have r: "currentChannelState ?ch = Inl (Err ''unavailable'')"
    by (rule example_currentChannelState_rejecting)
  have s: "state_of (snd ?w) (fst ?w) = Some initialState"
    by (simp add: example_channel_result state_of_def get_state_def lookup_def)
  have f: "fst (syncState (snd ?w) (fst ?w)) = Inl (Err ''unavailable'')"
    by (simp add: example_syncState_rejected)
  show ?thesis
    using syncState_failure_keeps_state [OF l disjI2 [OF r]] l r s f by simp
qed


text \<open>
  C4, as stated: a successful \<open>syncState\<close> returns the newly merged state record. In the
  run below the method returns reference 1, the channel object itself (\<open>return this\<close>),
  while the merged record is the new object at reference 2; reference 1 is no state
  object.
\<close>

theorem syncState_result_is_not_the_state_record:
  "fst (syncState (snd (example_channel (service_returning [3] [0])
                                        (contract_returning 3 900000 1000)))
                  (fst (example_channel (service_returning [3] [0])
                                        (contract_returning 3 900000 1000)))) = Inr 1
   \<and> get_state
        (snd (syncState (snd (example_channel (service_returning [3] [0])
                                              (contract_returning 3 900000 1000)))
                        (fst (example_channel (service_returning [3] [0])
                                              (contract_returning 3 900000 1000)))))
        1 = Some 2
   \<and> \<not> is_state_ref
        (snd (syncState (snd (example_channel (service_returning [3] [0])
                                              (contract_returning 3 900000 1000)))
                        (fst (example_channel (service_returning [3] [0])
                                              (contract_returning 3 900000 1000)))))
        1"
  by (simp add: example_syncState get_state_def is_state_ref_def lookup_def)

text \<open>
  C4, amended. Every successful \<open>syncState\<close> returns \<open>this\<close>, the channel object, which
  is not a state record; it installs as the state of the channel a new object that holds
  the six properties \<open>nonce\<close>, \<open>currentNonce\<close>, \<open>expiration\<close>, \<open>totalAmount\<close>,
  \<open>lastSignedAmount\<close> and \<open>availableAmount\<close> built from the two sources, reachable
  through the returned channel.
\<close>

theorem syncState_returns_this_and_installs_state:
  assumes "syncState h this = (Inr r, h')"
  shows "r = this \<and> \<not> is_state_ref h' r
       \<and> (\<exists>ch info cs.
             lookup h this = Some (ChannelObj ch)
           \<and> channels (mpeContract ch) (channelId ch) = Inr info
           \<and> currentChannelState ch = Inr cs
           \<and> get_state h' this = Some (length h)
           \<and> state_of h' this =
               Some \<lparr>nonce = Some (VWeb3Uint (info_nonce info)),
                     currentNonce = Some (VBigNumber (cs_nonce cs)),
                     expiration = Some (VWeb3Uint (info_expiration info)),
                     totalAmount = Some (VWeb3Uint (info_value info)),
                     lastSignedAmount = Some (VBigNumber (cs_lastSignedAmount cs)),
                     availableAmount =
                       Some (VNumber (js_minus (ToNumber (VWeb3Uint (info_value info)))
                                (ToNumber (VBigNumber (cs_lastSignedAmount cs)))))\<rparr>)"
proof -
  from assms obtain ch info cs where
    l: "lookup h this = Some (ChannelObj ch)" and
    c: "channels (mpeContract ch) (channelId ch) = Inr info" and
    s: "currentChannelState ch = Inr cs" and
    r: "r = this" and
    h': "h' = (h @ [StateObj (mergedState info cs)])[this := ChannelObj (ch\<lparr>state := length h\<rparr>)]"
    by (rule syncState_Inr_cases)
  have less: "this < length h"
    using l by (rule lookup_Some_less)
  have "\<not> is_state_ref h' r"
    unfolding h' r using less by (rule not_state_ref_installed)
  moreover have "get_state h' this = Some (length h)"
    unfolding h' using less by (rule get_state_installed)
  moreover have "state_of h' this = Some (mergedState info cs)"
    unfolding h' using less by (rule state_of_installed)
  ultimately show ?thesis
    using l c s r by (auto simp: mergedState_def Let_def)
qed

theorem syncState_returns_this_and_installs_state_witness:
  "syncState (snd (example_channel (service_returning [3] [250])
                                   (contract_returning 3 900000 1000)))
             (fst (example_channel (service_returning [3] [250])
                                   (contract_returning 3 900000 1000))) =
     (Inr 1,
      [StateObj initialState,
       ChannelObj \<lparr>channelId = 7, web3 = (), account = account_signing,
                   mpeContract = contract_returning 3 900000 1000,
                   stateServiceClient =
                     paymentChannelStateServiceClient (service_returning [3] [250]),
                   state = 2\<rparr>,
       StateObj (mergedState (ChannelInfo 3 900000 1000)
                   (CurrentState (uint8ArrayToBN [250]) (uint8ArrayToBN [3])))])
   \<and> (1 :: nat) = fst (example_channel (service_returning [3] [250])
                                   (contract_returning 3 900000 1000))
   \<and> \<not> is_state_ref
         [StateObj initialState,
          ChannelObj \<lparr>channelId = 7, web3 = (), account = account_signing,
                   mpeContract = contract_returning 3 900000 1000,
                   stateServiceClient =
                     paymentChannelStateServiceClient (service_returning [3] [250]),
                   state = 2\<rparr>,
          StateObj (mergedState (ChannelInfo 3 900000 1000)
                   (CurrentState (uint8ArrayToBN [250]) (uint8ArrayToBN [3])))] 1"
  using syncState_returns_this_and_installs_state [OF example_syncState [of "[3]" "[250]" 3 900000 1000]]
    example_syncState [of "[3]" "[250]" 3 900000 1000]
  by (simp add: example_channel_result)


text \<open>Whatever the two nonces are, a run in which both sources answer succeeds, and the
  new state holds the contract's nonce in \<open>nonce\<close> and what the decoder makes of the
  service's nonce bytes in \<open>currentNonce\<close>.\<close>

lemma syncState_both_sources_answer:
  assumes "lookup h this = Some (ChannelObj ch)"
    and "channels (mpeContract ch) (channelId ch) = Inr info"
    and "channelStateRequest ch = Inr req"
    and "getChannelState (stateServiceClient ch) req = Inr reply"
  shows "fst (syncState h this) = Inr this
       \<and> (\<exists>st. state_of (snd (syncState h this)) this = Some st
             \<and> nonce st = Some (VWeb3Uint (info_nonce info))
             \<and> currentNonce st =
                 Some (VBigNumber (uint8ArrayToBN (getCurrentNonce reply))))"
proof -
  let ?cs = "CurrentState (uint8ArrayToBN (getCurrentSignedAmount reply))
                          (uint8ArrayToBN (getCurrentNonce reply))"
  have cs: "currentChannelState ch = Inr ?cs"
    using assms(3,4) by (rule currentChannelState_Inr)
  have less: "this < length h"
    using assms(1) by (rule lookup_Some_less)
  have sync: "syncState h this =
     (Inr this, (h @ [StateObj (mergedState info ?cs)])
                   [this := ChannelObj (ch\<lparr>state := length h\<rparr>)])"
    using assms(1,2) cs by (rule syncState_succeeds)
  have "state_of (snd (syncState h this)) this = Some (mergedState info ?cs)"
    unfolding sync snd_conv using less by (rule state_of_installed)
  then show ?thesis
    by (simp add: sync mergedState_fields)
qed

text \<open>When the service sends at least one nonce byte, \<open>currentNonce\<close> is the
  service's nonce, whether it is below the contract's nonce or not.\<close>

lemma syncState_nonempty_nonce:
  assumes "lookup h this = Some (ChannelObj ch)"
    and "channels (mpeContract ch) (channelId ch) = Inr info"
    and "channelStateRequest ch = Inr req"
    and "getChannelState (stateServiceClient ch) req = Inr reply"
    and "getCurrentNonce reply \<noteq> []"
  shows "fst (syncState h this) = Inr this
       \<and> (\<exists>st. state_of (snd (syncState h this)) this = Some st
             \<and> nonce st = Some (VWeb3Uint (info_nonce info))
             \<and> currentNonce st =
                 Some (VBigNumber (BN (int (big_endian_value (getCurrentNonce reply))))))"
  using syncState_both_sources_answer [OF assms(1-4)]
  by (simp add: uint8ArrayToBN_nonempty [OF assms(5)])

lemma uint8ArrayToBN_Nil: "uint8ArrayToBN [] = BN_NaN"
  by (simp add: uint8ArrayToBN_def Buffer_from_def BigNumber_new_def digit_value_def)

text \<open>The example of the specification (P5): on-chain nonce 5, service nonce 4.\<close>

lemma nonce_skew_example:
  "syncState (snd (example_channel (service_returning [4] [0]) (contract_returning 5 900000 1000)))
             (fst (example_channel (service_returning [4] [0]) (contract_returning 5 900000 1000))) =
     (Inr 1,
      [StateObj initialState,
       ChannelObj \<lparr>channelId = 7, web3 = (), account = account_signing,
                   mpeContract = contract_returning 5 900000 1000,
                   stateServiceClient =
                     paymentChannelStateServiceClient (service_returning [4] [0]),
                   state = 2\<rparr>,
       StateObj \<lparr>nonce = Some (VWeb3Uint 5),
                 currentNonce = Some (VBigNumber (BN 4)),
                 expiration = Some (VWeb3Uint 900000),
                 totalAmount = Some (VWeb3Uint 1000),
                 lastSignedAmount = Some (VBigNumber (BN 0)),
                 availableAmount = Some (VNumber (Finite 1000))\<rparr>])"
proof -
  have "js_minus (Number_of_int 1000) (Number_of_int 0) = Finite 1000"
    using js_minus_exact [of 1000 0] by simp
  then show ?thesis
    by (simp add: example_syncState mergedState_def fixture_bytes)
qed

text \<open>
  C7. The specification (P5) asks that whenever the nonce the service reports is below
  the nonce of the contract, \<open>syncState\<close> succeeds and the state exposes both nonces,
  each in its own property. The call does succeed and the two properties are kept apart
  (\<open>syncState_both_sources_answer\<close>), and \<open>currentNonce\<close> is the service's nonce when
  at least one byte arrives (\<open>syncState_nonempty_nonce\<close>, \<open>nonce_skew_example\<close>). A
  service nonce of zero arrives as the zero-length byte string: in the run below the
  contract reports nonce 1, the service reports zero, and the state holds
  \<open>currentNonce = NaN\<close>, not the service's nonce.
\<close>

theorem syncState_zero_length_nonce_is_NaN:
  "big_endian_value [] < (1 :: nat)
   \<and> syncState (snd (example_channel (service_returning [] [0]) (contract_returning 1 900000 1000)))
               (fst (example_channel (service_returning [] [0]) (contract_returning 1 900000 1000))) =
     (Inr 1,
      [StateObj initialState,
       ChannelObj \<lparr>channelId = 7, web3 = (), account = account_signing,
                   mpeContract = contract_returning 1 900000 1000,
                   stateServiceClient =
                     paymentChannelStateServiceClient (service_returning [] [0]),
                   state = 2\<rparr>,
       StateObj \<lparr>nonce = Some (VWeb3Uint 1),
                 currentNonce = Some (VBigNumber BN_NaN),
                 expiration = Some (VWeb3Uint 900000),
                 totalAmount = Some (VWeb3Uint 1000),
                 lastSignedAmount = Some (VBigNumber (BN 0)),
                 availableAmount = Some (VNumber (Finite 1000))\<rparr>])"
proof -
  have "js_minus (Number_of_int 1000) (Number_of_int 0) = Finite 1000"
    using js_minus_exact [of 1000 0] by simp
  then show ?thesis
    by (simp add: example_syncState mergedState_def fixture_bytes uint8ArrayToBN_Nil
        big_endian_value_def)
qed

text \<open>
  C9. A successful \<open>syncState\<close> allocates one new state object and points the channel
  to it. No object that was in the store is written except the channel itself (so the
  previous state object is not mutated), and in the channel only \<open>state\<close> changes: the
  channel id, web3, the account, the contract and the service client stay as they were.
\<close>

theorem syncState_replaces_state_object:
  assumes "lookup h this = Some (ChannelObj ch)"
    and "syncState h this = (Inr r, h')"
  shows "length h' = Suc (length h)
       \<and> is_state_ref h' (length h)
       \<and> (\<forall>a. a < length h \<and> a \<noteq> this \<longrightarrow> lookup h' a = lookup h a)
       \<and> (\<exists>ch'. lookup h' this = Some (ChannelObj ch')
              \<and> state ch' = length h
              \<and> channelId ch' = channelId ch
              \<and> web3 ch' = web3 ch
              \<and> account ch' = account ch
              \<and> mpeContract ch' = mpeContract ch
              \<and> stateServiceClient ch' = stateServiceClient ch)"
proof -
  from assms(2) obtain ch0 info cs where
    l0: "lookup h this = Some (ChannelObj ch0)" and
    h': "h' = (h @ [StateObj (mergedState info cs)])[this := ChannelObj (ch0\<lparr>state := length h\<rparr>)]"
    by (rule syncState_Inr_cases)
  from l0 assms(1) have ch0: "ch0 = ch"
    by simp
  have less: "this < length h"
    using assms(1) by (rule lookup_Some_less)
  have "length h' = Suc (length h)"
    by (simp add: h')
  moreover have "is_state_ref h' (length h)"
    unfolding h' is_state_ref_def using less by (simp add: lookup_installed_new)
  moreover have "\<forall>a. a < length h \<and> a \<noteq> this \<longrightarrow> lookup h' a = lookup h a"
    unfolding h' by (simp add: lookup_installed_other)
  moreover have "lookup h' this = Some (ChannelObj (ch\<lparr>state := length h\<rparr>))"
    unfolding h' ch0 using less by (rule lookup_installed_this)
  ultimately show ?thesis
    by simp
qed

theorem syncState_replaces_state_object_witness:
  "lookup (snd (example_channel (service_returning [3] [250]) (contract_returning 3 900000 1000)))
          (fst (example_channel (service_returning [3] [250]) (contract_returning 3 900000 1000))) =
     Some (ChannelObj \<lparr>channelId = 7, web3 = (), account = account_signing,
                      mpeContract = contract_returning 3 900000 1000,
                      stateServiceClient =
                        paymentChannelStateServiceClient (service_returning [3] [250]),
                      state = 0\<rparr>)
   \<and> fst (syncState
        (snd (example_channel (service_returning [3] [250]) (contract_returning 3 900000 1000)))
        (fst (example_channel (service_returning [3] [250]) (contract_returning 3 900000 1000)))) =
       Inr 1
   \<and> lookup (snd (syncState
        (snd (example_channel (service_returning [3] [250]) (contract_returning 3 900000 1000)))
        (fst (example_channel (service_returning [3] [250]) (contract_returning 3 900000 1000)))))
        0 = Some (StateObj initialState)
   \<and> is_state_ref (snd (syncState
        (snd (example_channel (service_returning [3] [250]) (contract_returning 3 900000 1000)))
        (fst (example_channel (service_returning [3] [250]) (contract_returning 3 900000 1000)))))
        2
   \<and> lookup (snd (syncState
        (snd (example_channel (service_returning [3] [250]) (contract_returning 3 900000 1000)))
        (fst (example_channel (service_returning [3] [250]) (contract_returning 3 900000 1000)))))
        1 =
       Some (ChannelObj \<lparr>channelId = 7, web3 = (), account = account_signing,
                      mpeContract = contract_returning 3 900000 1000,
                      stateServiceClient =
                        paymentChannelStateServiceClient (service_returning [3] [250]),
                      state = 2\<rparr>)"
proof -
  let ?w = "example_channel (service_returning [3] [250]) (contract_returning 3 900000 1000)"
  have l: "lookup (snd ?w) (fst ?w) =
     Some (ChannelObj \<lparr>channelId = 7, web3 = (), account = account_signing,
                      mpeContract = contract_returning 3 900000 1000,
                      stateServiceClient =
                        paymentChannelStateServiceClient (service_returning [3] [250]),
                      state = 0\<rparr>)"
    by (rule example_channel_lookup)
  note s = example_syncState [of "[3]" "[250]" 3 900000 1000]
  show ?thesis
    using syncState_replaces_state_object [OF l s] l s
    by (simp add: example_channel_result lookup_def is_state_ref_def)
qed


section \<open>The subtraction of line 78\<close>

text \<open>Below \<open>2^53\<close> the subtraction is exact, whatever its sign.\<close>

lemma mergedState_available_exact:
  assumes "info_value info < 2 ^ 53"
    and "cs_lastSignedAmount cs = BN a" and "0 \<le> a" and "a < 2 ^ 53"
  shows "availableAmount (mergedState info cs) =
     Some (VNumber (Finite (int (info_value info) - a)))"
proof -
  have "int (info_value info) < 2 ^ 53"
    using assms(1) by (metis of_nat_less_iff of_nat_numeral of_nat_power)
  then have "js_minus (Number_of_int (int (info_value info))) (Number_of_int a) =
      Finite (int (info_value info) - a)"
    using assms(3,4) by (simp add: js_minus_exact)
  then show ?thesis
    by (simp add: mergedState_fields assms(2))
qed

text \<open>
  C1. The specification (P1) asks that for sources with
  \<open>totalAmount \<ge> lastSignedAmount \<ge> 0\<close> a successful \<open>syncState\<close> reports
  \<open>availableAmount = totalAmount - lastSignedAmount\<close> exactly, at any magnitude.
  Line 78 subtracts with JavaScript's own \<open>-\<close>, on doubles: the difference is exact
  while both amounts stay below \<open>2^53\<close> (\<open>mergedState_available_exact\<close>) and is
  rounded beyond. The run below has the contract report \<open>2^53 + 1\<close> and the service a
  signed amount of zero (the byte \<open>00\<close>): the state holds \<open>availableAmount = 2^53\<close>,
  one less than the difference.
\<close>

theorem syncState_availableAmount_is_rounded:
  "syncState (snd (example_channel (service_returning [3] [0])
                                   (contract_returning 3 900000 9007199254740993)))
             (fst (example_channel (service_returning [3] [0])
                                   (contract_returning 3 900000 9007199254740993))) =
     (Inr 1,
      [StateObj initialState,
       ChannelObj \<lparr>channelId = 7, web3 = (), account = account_signing,
                   mpeContract = contract_returning 3 900000 9007199254740993,
                   stateServiceClient =
                     paymentChannelStateServiceClient (service_returning [3] [0]),
                   state = 2\<rparr>,
       StateObj \<lparr>nonce = Some (VWeb3Uint 3),
                 currentNonce = Some (VBigNumber (BN 3)),
                 expiration = Some (VWeb3Uint 900000),
                 totalAmount = Some (VWeb3Uint 9007199254740993),
                 lastSignedAmount = Some (VBigNumber (BN 0)),
                 availableAmount = Some (VNumber (Finite 9007199254740992))\<rparr>])"
  by (simp add: example_syncState mergedState_def fixture_bytes Number_of_2_53_plus_1
      Number_of_2_53 Number_of_0)

text \<open>
  C5. The specification (P2) asks that for \<open>lastSignedAmount > totalAmount\<close> a
  successful \<open>syncState\<close> reports the exact negative difference, unclamped, without an
  error. Nothing clamps and nothing is raised, but the difference is again the double
  subtraction of line 78. The run below has the contract report \<open>2^53\<close> and the
  service a signed amount of \<open>2^53 + 1\<close> (the bytes \<open>20 00 00 00 00 00 01\<close>): the
  state holds \<open>availableAmount = 0\<close>, which is neither negative nor the difference
  \<open>-1\<close>.
\<close>

theorem syncState_negative_difference_is_lost:
  "syncState (snd (example_channel (service_returning [3] [32, 0, 0, 0, 0, 0, 1])
                                   (contract_returning 3 900000 9007199254740992)))
             (fst (example_channel (service_returning [3] [32, 0, 0, 0, 0, 0, 1])
                                   (contract_returning 3 900000 9007199254740992))) =
     (Inr 1,
      [StateObj initialState,
       ChannelObj \<lparr>channelId = 7, web3 = (), account = account_signing,
                   mpeContract = contract_returning 3 900000 9007199254740992,
                   stateServiceClient =
                     paymentChannelStateServiceClient
                       (service_returning [3] [32, 0, 0, 0, 0, 0, 1]),
                   state = 2\<rparr>,
       StateObj \<lparr>nonce = Some (VWeb3Uint 3),
                 currentNonce = Some (VBigNumber (BN 3)),
                 expiration = Some (VWeb3Uint 900000),
                 totalAmount = Some (VWeb3Uint 9007199254740992),
                 lastSignedAmount = Some (VBigNumber (BN 9007199254740993)),
                 availableAmount = Some (VNumber (Finite 0))\<rparr>])"
  by (simp add: example_syncState mergedState_def fixture_bytes Number_of_2_53_plus_1
      Number_of_2_53 Number_of_0)

end
